theory Spec2Isabelle
  imports Main "HOL-Library.Sublist"
begin

section \<open>JavaScript values\<close>

text \<open>
  The values the front-end handles come out of \<^verbatim>\<open>JSON.parse\<close> and
  \<^verbatim>\<open>response.json()\<close>, or are read from a property that may be missing.
  \<open>JUndefined\<close> is the result of reading a missing property. A string is the list of
  its code units, each below 256 (the Latin-1 range: \<open>CHR 0xA0\<close> is the no-break space); a
  number is an integer that a JSON number holds exactly (magnitude at most \<open>2 ^ 53\<close>; the code
  only tests numbers for truthiness and prints them); an object is the list of its own
  properties, read with \<open>map_of\<close>.
\<close>

datatype js =
    JUndefined
  | JNull
  | JBool bool
  | JNum int
  | JStr string
  | JArr "js list"
  | JObj "(string \<times> js) list"

text \<open>
  The errors that can be thrown: the native ones carry the engine's message, and
  \<open>ApiError\<close> is the class of \<^verbatim>\<open>services/api.js\<close> (message, status).
\<close>

datatype js_error =
    TypeError string
  | SyntaxError string
  | InvalidStateError string
  | ApiError string nat

fun message :: "js_error \<Rightarrow> string" where
  "message (TypeError m) = m"
| "message (SyntaxError m) = m"
| "message (InvalidStateError m) = m"
| "message (ApiError m st) = m"

text \<open>Truthiness, as \<^verbatim>\<open>if (v)\<close>, \<^verbatim>\<open>!v\<close> and \<^verbatim>\<open>v || w\<close> test it.\<close>

fun truthy :: "js \<Rightarrow> bool" where
  "truthy JUndefined = False"
| "truthy JNull = False"
| "truthy (JBool b) = b"
| "truthy (JNum n) = (n \<noteq> 0)"
| "truthy (JStr s) = (s \<noteq> [])"
| "truthy (JArr xs) = True"
| "truthy (JObj kvs) = True"

definition js_or :: "js \<Rightarrow> js \<Rightarrow> js" where
  "js_or a b = (if truthy a then a else b)"

text \<open>
  Reading a property \<^verbatim>\<open>v.k\<close>, for the keys the code reads (\<^verbatim>\<open>error\<close>,
  \<^verbatim>\<open>authenticated\<close>, \<^verbatim>\<open>setup_needed\<close>, \<^verbatim>\<open>content\<close>, \<^verbatim>\<open>sender\<close>):
  it throws on \<^verbatim>\<open>null\<close> and \<^verbatim>\<open>undefined\<close>, and gives \<^verbatim>\<open>undefined\<close> on a
  primitive, on an array and on an object without the key.
\<close>

fun get_prop :: "js \<Rightarrow> string \<Rightarrow> js_error + js" where
  "get_prop JUndefined k =
     Inl (TypeError (''Cannot read properties of undefined (reading '' @ [CHR 0x27] @ k @ [CHR 0x27] @ '')''))"
| "get_prop JNull k =
     Inl (TypeError (''Cannot read properties of null (reading '' @ [CHR 0x27] @ k @ [CHR 0x27] @ '')''))"
| "get_prop (JObj kvs) k = Inr (case map_of kvs k of None \<Rightarrow> JUndefined | Some v \<Rightarrow> v)"
| "get_prop v k = Inr JUndefined"

text \<open>
  The conversion to a string that the \<^verbatim>\<open>Error\<close> constructor applies to its message.
  An array is joined with commas, \<^verbatim>\<open>null\<close> and \<^verbatim>\<open>undefined\<close> elements giving the empty
  string. An object is converted by its \<^verbatim>\<open>toString\<close>: the inherited one gives
  \<^verbatim>\<open>[object Object]\<close>, and an own property of that name, which is never callable in a
  parsed value, makes the conversion throw. The first element that throws decides.
\<close>

definition digit :: "nat \<Rightarrow> char" where
  "digit d = ''0123456789'' ! d"

fun string_of_nat :: "nat \<Rightarrow> string" where
  "string_of_nat n = (if n < 10 then [digit n] else string_of_nat (n div 10) @ [digit (n mod 10)])"

definition string_of_int :: "int \<Rightarrow> string" where
  "string_of_int i = (if i < 0 then CHR ''-'' # string_of_nat (nat (- i)) else string_of_nat (nat i))"

fun js_join :: "string list \<Rightarrow> string" where
  "js_join [] = []"
| "js_join [x] = x"
| "js_join (x # y # zs) = x @ '','' @ js_join (y # zs)"

fun collect :: "(js_error + string) list \<Rightarrow> js_error + string list" where
  "collect [] = Inr []"
| "collect (Inl e # rs) = Inl e"
| "collect (Inr x # rs) = (case collect rs of Inl e \<Rightarrow> Inl e | Inr xs \<Rightarrow> Inr (x # xs))"

fun js_to_string :: "js \<Rightarrow> js_error + string" where
  "js_to_string JUndefined = Inr ''undefined''"
| "js_to_string JNull = Inr ''null''"
| "js_to_string (JBool b) = Inr (if b then ''true'' else ''false'')"
| "js_to_string (JNum n) = Inr (string_of_int n)"
| "js_to_string (JStr s) = Inr s"
| "js_to_string (JArr xs) =
     (case collect (map (\<lambda>x. if x = JUndefined \<or> x = JNull then Inr [] else js_to_string x) xs) of
        Inl e \<Rightarrow> Inl e
      | Inr ss \<Rightarrow> Inr (js_join ss))"
| "js_to_string (JObj kvs) =
     (if map_of kvs ''toString'' = None then Inr ''[object Object]''
      else Inl (TypeError ''Cannot convert object to primitive value''))"

text \<open>
  \<^verbatim>\<open>String.prototype.trim\<close>: the white space and line terminators at both ends are
  removed. Among the code units below 256 these are tab, line feed, vertical tab, form
  feed, carriage return, space and the no-break space U+00A0; the others the language
  lists (U+FEFF, U+1680, U+2000 to U+200A, U+2028, U+2029, U+202F, U+205F, U+3000) lie
  beyond the characters of a string here.
\<close>

definition is_space :: "char \<Rightarrow> bool" where
  "is_space c =
     (c \<in> set [CHR 0x09, CHR 0x0A, CHR 0x0B, CHR 0x0C, CHR 0x0D, CHR 0x20, CHR 0xA0])"

definition trim :: "string \<Rightarrow> string" where
  "trim s = rev (dropWhile is_space (rev (dropWhile is_space s)))"

section \<open>The request wrapper (services/api.js)\<close>

text \<open>
  A response as \<open>request\<close> reads it: the HTTP status and the outcome of
  \<^verbatim>\<open>response.json()\<close>, which rejects with a \<open>SyntaxError\<close> on a body that is
  not JSON. \<^verbatim>\<open>response.ok\<close> is the platform's flag for a status in 200..299.
\<close>

record response =
  status :: nat
  body :: "js_error + js"

definition ok :: "response \<Rightarrow> bool" where
  "ok r = (200 \<le> status r \<and> status r \<le> 299)"

text \<open>
  \<open>request\<close> on the outcome of \<^verbatim>\<open>fetch\<close> (\<open>Inl\<close> when fetch itself rejects, which the
  \<^verbatim>\<open>catch\<close> rethrows). The 401 test comes before the body is read; the body is read before
  \<^verbatim>\<open>response.ok\<close> is tested. The \<open>ApiError\<close> is constructed from the message converted
  to a string, and a conversion that throws is what \<open>request\<close> throws.
\<close>

definition request :: "js_error + response \<Rightarrow> js_error + js" where
  "request fetched =
     (case fetched of
        Inl e \<Rightarrow> Inl e
      | Inr r \<Rightarrow>
          if status r = 401 then Inl (ApiError ''Unauthorized'' 401)
          else (case body r of
                  Inl e \<Rightarrow> Inl e
                | Inr data \<Rightarrow>
                    if \<not> ok r then
                      (case get_prop data ''error'' of
                         Inl e \<Rightarrow> Inl e
                       | Inr v \<Rightarrow>
                           (case js_to_string (js_or v (JStr ''API Error'')) of
                              Inl e \<Rightarrow> Inl e
                            | Inr m \<Rightarrow> Inl (ApiError m (status r))))
                    else Inr data))"

section \<open>The authentication context (contexts/AuthContext.jsx)\<close>

text \<open>
  The provider's three state variables. \<open>user\<close> is \<^verbatim>\<open>null\<close> or the object
  \<^verbatim>\<open>{ authenticated: true }\<close>; \<open>setupNeeded\<close> holds whatever the server sent in
  \<^verbatim>\<open>setup_needed\<close>.
\<close>

datatype user = AuthenticatedUser

record auth_state =
  user :: "user option"
  loading :: bool
  setupNeeded :: js

definition init_auth :: auth_state where
  "init_auth = \<lparr>user = None, loading = True, setupNeeded = JBool False\<rparr>"

text \<open>
  \<open>checkAuth\<close> on the outcome of the fetch of \<^verbatim>\<open>/check-auth\<close>. Whatever is thrown inside
  the \<^verbatim>\<open>try\<close> goes to the \<^verbatim>\<open>catch\<close>, which clears the user; the \<^verbatim>\<open>finally\<close>
  clears \<open>loading\<close>. The function itself never throws.
\<close>

definition checkAuth :: "js_error + response \<Rightarrow> auth_state \<Rightarrow> auth_state" where
  "checkAuth fetched s =
     (case request fetched of
        Inl e \<Rightarrow> s\<lparr>user := None, loading := False\<rparr>
      | Inr data \<Rightarrow>
          (case get_prop data ''authenticated'' of
             Inl e \<Rightarrow> s\<lparr>user := None, loading := False\<rparr>
           | Inr a \<Rightarrow>
               (let s1 = s\<lparr>user := (if truthy a then Some AuthenticatedUser else None)\<rparr> in
                case get_prop data ''setup_needed'' of
                  Inl e \<Rightarrow> s1\<lparr>user := None, loading := False\<rparr>
                | Inr v \<Rightarrow> s1\<lparr>setupNeeded := v, loading := False\<rparr>)))"

text \<open>
  The three actions. Each is an async function: the result is \<open>Inl e\<close> when the promise
  rejects with \<open>e\<close> and \<open>Inr ()\<close> when it resolves, next to the state it leaves. The first
  argument is the outcome of the action's own fetch, the second (for \<open>login\<close> and
  \<open>setup'\<close>) the outcome of the fetch of the check that follows.
\<close>

definition login ::
  "js_error + response \<Rightarrow> js_error + response \<Rightarrow> auth_state \<Rightarrow> (js_error + unit) \<times> auth_state" where
  "login fetched fetched_check s =
     (case request fetched of
        Inl e \<Rightarrow> (Inl e, s)
      | Inr data \<Rightarrow> (Inr (), checkAuth fetched_check s))"

definition setup' ::
  "js_error + response \<Rightarrow> js_error + response \<Rightarrow> auth_state \<Rightarrow> (js_error + unit) \<times> auth_state" where
  "setup' fetched fetched_check s =
     (case request fetched of
        Inl e \<Rightarrow> (Inl e, s)
      | Inr data \<Rightarrow> (Inr (), checkAuth fetched_check s))"

definition logout :: "js_error + response \<Rightarrow> auth_state \<Rightarrow> (js_error + unit) \<times> auth_state" where
  "logout fetched s =
     (case request fetched of
        Inl e \<Rightarrow> (Inl e, s)
      | Inr data \<Rightarrow> (Inr (), s\<lparr>user := None\<rparr>))"

text \<open>
  The phase of the session, read off the three variables in the order in which both
  route guards test them: \<open>loading\<close>, then \<open>setupNeeded\<close>, then \<open>user\<close>.
\<close>

datatype phase = Unresolved | SetupRequired | Unauthenticated | Authenticated

definition phase :: "auth_state \<Rightarrow> phase" where
  "phase s =
     (if loading s then Unresolved
      else if truthy (setupNeeded s) then SetupRequired
      else if user s = None then Unauthenticated
      else Authenticated)"

section \<open>The route guards (App.jsx)\<close>

text \<open>
  The route table: the location the router has matched, and the page each location
  mounts. \<open>OtherPath\<close> is the \<^verbatim>\<open>*\<close> route. What a guard returns is an \<open>element\<close>: the
  spinner, nothing (\<^verbatim>\<open>null\<close>), its outlet bare, its outlet inside the layout, or a
  redirect.
\<close>

datatype mode = LoginMode | SetupMode

datatype page = Login mode | Dashboard | ConfigLLM | ConfigIM | Chat

datatype route =
  LoginPath | SetupPath | RootPath | MonitorPath | LlmPath | ImPath | ChatPath | OtherPath

datatype element = Spinner | Nothing | Outlet page | Layout page | Navigate route

definition PrivateRoute :: "auth_state \<Rightarrow> page \<Rightarrow> element" where
  "PrivateRoute s outlet =
     (if loading s then Spinner
      else if truthy (setupNeeded s) then Navigate SetupPath
      else if user s = None then Navigate LoginPath
      else Layout outlet)"

definition PublicRoute :: "auth_state \<Rightarrow> page \<Rightarrow> element" where
  "PublicRoute s outlet =
     (if loading s then Nothing
      else if truthy (setupNeeded s) then Outlet outlet
      else if user s \<noteq> None then Navigate RootPath
      else Outlet outlet)"

fun App :: "auth_state \<Rightarrow> route \<Rightarrow> element" where
  "App s LoginPath = PublicRoute s (Login LoginMode)"
| "App s SetupPath = PublicRoute s (Login SetupMode)"
| "App s RootPath = PrivateRoute s Dashboard"
| "App s MonitorPath = PrivateRoute s Dashboard"
| "App s LlmPath = PrivateRoute s ConfigLLM"
| "App s ImPath = PrivateRoute s ConfigIM"
| "App s ChatPath = PrivateRoute s Chat"
| "App s OtherPath = Navigate RootPath"

text \<open>
  What is on the screen at a location: the redirects are followed, at most \<open>n\<close> elements
  being rendered; \<open>None\<close> when the last of them is still a redirect.
\<close>

fun screen :: "nat \<Rightarrow> auth_state \<Rightarrow> route \<Rightarrow> element option" where
  "screen 0 s r = None"
| "screen (Suc n) s r =
     (case App s r of
        Navigate r' \<Rightarrow> screen n s r'
      | el \<Rightarrow> Some el)"

section \<open>The login and setup form (pages/Login.jsx)\<close>

record login_form =
  password :: string
  confirm :: string
  error :: string
  navigated :: "route option"

text \<open>
  \<open>handleSubmit\<close>, for the form in the given mode, on the form and the context's state;
  the two fetch outcomes are those of the action it calls.
\<close>

definition handleSubmit ::
  "mode \<Rightarrow> js_error + response \<Rightarrow> js_error + response \<Rightarrow> login_form \<times> auth_state
     \<Rightarrow> login_form \<times> auth_state" where
  "handleSubmit m fetched fetched_check fs =
     (let f = (fst fs)\<lparr>error := []\<rparr>; s = snd fs in
      if m = SetupMode \<and> password f \<noteq> confirm f then
        (f\<lparr>error := ''Passwords do not match''\<rparr>, s)
      else
        (case (if m = SetupMode then setup' fetched fetched_check s
               else login fetched fetched_check s) of
           (Inl err, s') \<Rightarrow>
             (f\<lparr>error := (if message err \<noteq> [] then message err else ''Failed to authenticate'')\<rparr>, s')
         | (Inr u, s') \<Rightarrow> (f\<lparr>navigated := Some RootPath\<rparr>, s')))"

section \<open>The chat console (pages/Chat.jsx)\<close>

text \<open>
  The component's state: the three state variables, the socket reference, and the
  environment it acts on. \<open>sockets\<close> lists the \<^verbatim>\<open>readyState\<close> of every WebSocket
  constructed so far (0 connecting, 1 open, 2 closing, 3 closed), a socket being named by
  its position; \<open>timers\<close> counts the pending \<^verbatim>\<open>setTimeout(connect, 2000)\<close> callbacks;
  \<open>sent\<close> lists what was handed to the network, with the socket it went to (the object
  that \<^verbatim>\<open>JSON.stringify\<close> serialises).
\<close>

record log_entry =
  text' :: js
  sender :: js

record chat_state =
  messages :: "log_entry list"
  input :: string
  status' :: string
  wsRef :: "nat option"
  sockets :: "nat list"
  timers :: nat
  sent :: "(nat \<times> js) list"

definition init_chat :: chat_state where
  "init_chat =
     \<lparr>messages = [], input = [], status' = ''Connecting...'', wsRef = None,
      sockets = [], timers = 0, sent = []\<rparr>"

definition readyState :: "chat_state \<Rightarrow> nat \<Rightarrow> nat" where
  "readyState s i = (if i < length (sockets s) then sockets s ! i else 3)"

text \<open>
  The platform's \<^verbatim>\<open>WebSocket.send\<close> and \<^verbatim>\<open>WebSocket.close\<close>: \<open>send\<close> throws while the
  socket is connecting, transmits while it is open and discards the data otherwise;
  \<open>close\<close> starts the closing handshake unless the socket is closing or closed.
\<close>

definition ws_send :: "nat \<Rightarrow> js \<Rightarrow> chat_state \<Rightarrow> js_error + chat_state" where
  "ws_send i payload s =
     (if readyState s i = 0 then Inl (InvalidStateError ''Still in CONNECTING state'')
      else if readyState s i = 1 then Inr (s\<lparr>sent := sent s @ [(i, payload)]\<rparr>)
      else Inr s)"

definition ws_close :: "nat \<Rightarrow> chat_state \<Rightarrow> chat_state" where
  "ws_close i s =
     (if readyState s i = 2 \<or> readyState s i = 3 then s
      else s\<lparr>sockets := (sockets s)[i := 2]\<rparr>)"

text \<open>\<open>connect\<close> constructs a socket, arms its three handlers and stores it in the reference.\<close>

definition connect :: "chat_state \<Rightarrow> chat_state" where
  "connect s = s\<lparr>sockets := sockets s @ [0], wsRef := Some (length (sockets s))\<rparr>"

definition onopen :: "chat_state \<Rightarrow> chat_state" where
  "onopen s = s\<lparr>status' := ''Connected''\<rparr>"

definition onclose :: "chat_state \<Rightarrow> chat_state" where
  "onclose s = s\<lparr>status' := ''Disconnected'', timers := Suc (timers s)\<rparr>"

text \<open>
  \<open>onmessage\<close> on the outcome of \<^verbatim>\<open>JSON.parse(e.data)\<close>. Whatever is thrown is caught and
  logged to the console.
\<close>

definition onmessage :: "js_error + js \<Rightarrow> chat_state \<Rightarrow> chat_state" where
  "onmessage parsed s =
     (case parsed of
        Inl e \<Rightarrow> s
      | Inr data \<Rightarrow>
          (case get_prop data ''content'' of
             Inl e \<Rightarrow> s
           | Inr c \<Rightarrow>
               if truthy c then
                 (case get_prop data ''sender'' of
                    Inl e \<Rightarrow> s
                  | Inr sn \<Rightarrow>
                      s\<lparr>messages := messages s @ [\<lparr>text' = c, sender = js_or sn (JStr ''bot'')\<rparr>]\<rparr>)
               else s))"

text \<open>
  \<open>sendMessage\<close>: the result is \<open>Inl e\<close> when the handler throws \<open>e\<close> and \<open>Inr ()\<close> when it
  returns, next to the state it leaves.
\<close>

definition sendMessage :: "chat_state \<Rightarrow> (js_error + unit) \<times> chat_state" where
  "sendMessage s =
     (if trim (input s) = [] then (Inr (), s)
      else
        (case wsRef s of
           None \<Rightarrow> (Inr (), s)
         | Some i \<Rightarrow>
             if readyState s i \<noteq> 1 then (Inr (), s)
             else
               (let t = trim (input s);
                    s1 = s\<lparr>messages := messages s @ [\<lparr>text' = JStr t, sender = JStr ''user''\<rparr>]\<rparr>
                in case ws_send i (JObj [(''type'', JStr ''message''), (''content'', JStr t)]) s1 of
                     Inl e \<Rightarrow> (Inl e, s1)
                   | Inr s2 \<Rightarrow> (Inr (), s2\<lparr>input := []\<rparr>))))"

text \<open>
  The second and third tests of the guard of \<open>sendMessage\<close>: a socket is referenced and its
  \<^verbatim>\<open>readyState\<close> is 1.
\<close>

definition socket_open :: "chat_state \<Rightarrow> bool" where
  "socket_open s = (case wsRef s of None \<Rightarrow> False | Some i \<Rightarrow> readyState s i = 1)"

text \<open>The effect's cleanup, run when the component unmounts.\<close>

definition cleanup :: "chat_state \<Rightarrow> chat_state" where
  "cleanup s = (case wsRef s of None \<Rightarrow> s | Some i \<Rightarrow> ws_close i s)"

text \<open>
  The events the component observes. The platform delivers \<open>WsOpen\<close> to a connecting
  socket, \<open>WsMessage\<close> to an open one and \<open>WsClose\<close> once to a socket that is not yet
  closed, setting its \<^verbatim>\<open>readyState\<close> before the handler runs; \<open>Timeout\<close> runs one pending
  timer callback; \<open>Change\<close> is the input field's \<^verbatim>\<open>onChange\<close> and \<open>Submit\<close> the form's
  \<^verbatim>\<open>onSubmit\<close>. An event the platform cannot deliver leaves the state as it is.
\<close>

datatype event =
    Mount
  | Unmount
  | WsOpen nat
  | WsClose nat
  | WsMessage nat "js_error + js"
  | Timeout
  | Change string
  | Submit

fun step :: "event \<Rightarrow> chat_state \<Rightarrow> chat_state" where
  "step Mount s = connect s"
| "step Unmount s = cleanup s"
| "step (WsOpen i) s =
     (if readyState s i = 0 then onopen (s\<lparr>sockets := (sockets s)[i := 1]\<rparr>) else s)"
| "step (WsClose i) s =
     (if i < length (sockets s) \<and> readyState s i \<noteq> 3
      then onclose (s\<lparr>sockets := (sockets s)[i := 3]\<rparr>) else s)"
| "step (WsMessage i parsed) s = (if readyState s i = 1 then onmessage parsed s else s)"
| "step Timeout s = (if 0 < timers s then connect (s\<lparr>timers := timers s - 1\<rparr>) else s)"
| "step (Change v) s = s\<lparr>input := v\<rparr>"
| "step Submit s = snd (sendMessage s)"

fun run :: "event list \<Rightarrow> chat_state \<Rightarrow> chat_state" where
  "run [] s = s"
| "run (e # es) s = run es (step e s)"

declare string_of_nat.simps [simp del]

section \<open>The session: logout, login and the request wrapper\<close>

lemma request_401: "status r = 401 \<Longrightarrow> request (Inr r) = Inl (ApiError ''Unauthorized'' 401)"
  by (simp add: request_def)

lemma checkAuth_resolves: "\<not> loading (checkAuth fetched s)"
  by (simp add: checkAuth_def Let_def split: sum.splits)

text \<open>
  When the check's answer flags that setup is needed, the phase is \<open>SetupRequired\<close> whatever
  the answer says about the session.
\<close>

lemma checkAuth_setup_precedence:
  "request fetched = Inr data \<Longrightarrow> get_prop data ''authenticated'' = Inr a \<Longrightarrow>
   get_prop data ''setup_needed'' = Inr v \<Longrightarrow> truthy v \<Longrightarrow>
   phase (checkAuth fetched s) = SetupRequired"
  by (simp add: checkAuth_def phase_def Let_def)

text \<open>A 401 is displayed as \<^verbatim>\<open>Unauthorized\<close> by the login form, whatever its body.\<close>

lemma handleSubmit_401:
  "status r = 401 \<Longrightarrow>
   error (fst (handleSubmit LoginMode (Inr r) fetched_check (f, s))) = ''Unauthorized''"
  by (simp add: handleSubmit_def login_def request_401)

text \<open>
  The three resolved states the examples below start from, each as the initial check
  leaves it for an answer of the server.
\<close>

lemma checkAuth_authenticated:
  "checkAuth (Inr \<lparr>status = 200, body = Inr (JObj [(''authenticated'', JBool True),
      (''setup_needed'', JBool False)])\<rparr>) init_auth
   = \<lparr>user = Some AuthenticatedUser, loading = False, setupNeeded = JBool False\<rparr>"
  by (simp add: checkAuth_def request_def ok_def init_auth_def)

lemma checkAuth_unauthenticated:
  "checkAuth (Inr \<lparr>status = 200, body = Inr (JObj [(''authenticated'', JBool False),
      (''setup_needed'', JBool False)])\<rparr>) init_auth
   = \<lparr>user = None, loading = False, setupNeeded = JBool False\<rparr>"
  by (simp add: checkAuth_def request_def ok_def init_auth_def)

lemma checkAuth_setup_needed:
  "checkAuth (Inr \<lparr>status = 200, body = Inr (JObj [(''authenticated'', JBool False),
      (''setup_needed'', JBool True)])\<rparr>) init_auth
   = \<lparr>user = None, loading = False, setupNeeded = JBool True\<rparr>"
  by (simp add: checkAuth_def request_def ok_def init_auth_def)

text \<open>
  C1, as the code has it. \<open>logout\<close> awaits the request before it clears the user, so the
  user is cleared only when the request succeeds: a successful logout turns the phase
  \<open>Authenticated\<close> into \<open>Unauthenticated\<close> and leaves every other phase as it is; when the
  request raises, the error is propagated to the caller and the state, hence the phase,
  is the one before the call.
\<close>

theorem logout_phase:
  "fst (logout fetched s) = (case request fetched of Inl e \<Rightarrow> Inl e | Inr d \<Rightarrow> Inr ()) \<and>
   (case request fetched of
      Inl e \<Rightarrow> snd (logout fetched s) = s
    | Inr d \<Rightarrow> snd (logout fetched s) = s\<lparr>user := None\<rparr> \<and>
        phase (snd (logout fetched s)) =
          (if phase s = Authenticated then Unauthenticated else phase s))"
  by (simp add: logout_def phase_def split: sum.splits)

text \<open>
  C1 as stated fails: the fetch of the logout request rejects (the network is down) while
  the operator is authenticated, and the phase after the call is not \<open>Unauthenticated\<close>.
\<close>

theorem logout_failure_counterexample:
  "phase (snd (logout (Inl (TypeError ''Failed to fetch''))
      \<lparr>user = Some AuthenticatedUser, loading = False, setupNeeded = JBool False\<rparr>))
   = Authenticated \<and>
   phase (snd (logout (Inl (TypeError ''Failed to fetch''))
      \<lparr>user = Some AuthenticatedUser, loading = False, setupNeeded = JBool False\<rparr>))
   \<noteq> Unauthenticated"
  by (simp add: logout_def request_def phase_def)

text \<open>
  C8, as the code has it. Whenever \<open>login\<close> fails, the error is the one the credential
  request raised, propagated as it is, and the state (so the phase) after the call is the
  state before it. When the failing request got a response whose JSON body carries a
  non-empty \<^verbatim>\<open>error\<close> string, that error is an \<open>ApiError\<close> with the server's string and the
  HTTP status, unless the status is 401: then it is \<^verbatim>\<open>ApiError('Unauthorized', 401)\<close>.
\<close>

theorem login_failure:
  assumes "fst (login fetched fetched_check s) = Inl e"
  shows "request fetched = Inl e \<and> snd (login fetched fetched_check s) = s \<and>
         phase (snd (login fetched fetched_check s)) = phase s \<and>
         (fetched = Inr r \<longrightarrow> body r = Inr data \<longrightarrow> get_prop data ''error'' = Inr (JStr m) \<longrightarrow>
          m \<noteq> [] \<longrightarrow>
          e = (if status r = 401 then ApiError ''Unauthorized'' 401 else ApiError m (status r)))"
proof -
  from assms have req: "request fetched = Inl e"
    by (auto simp: login_def split: sum.splits)
  then have unchanged: "snd (login fetched fetched_check s) = s"
    by (simp add: login_def)
  have "e = (if status r = 401 then ApiError ''Unauthorized'' 401 else ApiError m (status r))"
    if "fetched = Inr r" and "body r = Inr data" and "get_prop data ''error'' = Inr (JStr m)"
      and "m \<noteq> []"
    using req that by (auto simp: request_def js_or_def split: if_splits)
  with req unchanged show ?thesis by simp
qed

theorem login_failure_witness:
  "fst (login (Inr \<lparr>status = 500, body = Inr (JObj [(''error'', JStr ''boom'')])\<rparr>)
         (Inl (TypeError ''Failed to fetch''))
         \<lparr>user = None, loading = False, setupNeeded = JBool False\<rparr>)
     = Inl (ApiError ''boom'' 500) \<and>
   request (Inr \<lparr>status = 500, body = Inr (JObj [(''error'', JStr ''boom'')])\<rparr>)
     = Inl (ApiError ''boom'' 500) \<and>
   snd (login (Inr \<lparr>status = 500, body = Inr (JObj [(''error'', JStr ''boom'')])\<rparr>)
         (Inl (TypeError ''Failed to fetch''))
         \<lparr>user = None, loading = False, setupNeeded = JBool False\<rparr>)
     = \<lparr>user = None, loading = False, setupNeeded = JBool False\<rparr>"
proof -
  have h: "fst (login (Inr \<lparr>status = 500, body = Inr (JObj [(''error'', JStr ''boom'')])\<rparr>)
         (Inl (TypeError ''Failed to fetch''))
         \<lparr>user = None, loading = False, setupNeeded = JBool False\<rparr>)
     = Inl (ApiError ''boom'' 500)"
    by (simp add: login_def request_def ok_def js_or_def)
  from login_failure [OF h, of "\<lparr>status = 500, body = Inr (JObj [(''error'', JStr ''boom'')])\<rparr>"
      "JObj [(''error'', JStr ''boom'')]" "''boom''"] h
  show ?thesis by simp
qed

text \<open>
  C8 as stated fails on its second half: the server answers the login with 401 and
  \<^verbatim>\<open>{error: "bad password"}\<close>, and the error that reaches the caller does not carry the
  server's message.
\<close>

theorem login_401_counterexample:
  "fst (login (Inr \<lparr>status = 401, body = Inr (JObj [(''error'', JStr ''bad password'')])\<rparr>)
         (Inr \<lparr>status = 200, body = Inr (JObj [(''authenticated'', JBool False)])\<rparr>)
         \<lparr>user = None, loading = False, setupNeeded = JBool False\<rparr>)
   = Inl (ApiError ''Unauthorized'' 401) \<and>
   message (ApiError ''Unauthorized'' 401) \<noteq> ''bad password''"
  by (simp add: login_def request_def)

text \<open>
  C5, as the code has it. For a response that is not 2xx and whose JSON body carries a
  non-empty \<^verbatim>\<open>error\<close> string: when the status is not 401, \<open>request\<close> raises an
  \<open>ApiError\<close> whose message is that string and whose status is the HTTP status, and the
  form (in login mode, or in setup mode with matching passwords) displays the string; when
  the status is 401, the error is \<^verbatim>\<open>ApiError('Unauthorized', 401)\<close> whatever the body
  says, and the form displays \<^verbatim>\<open>Unauthorized\<close>.
\<close>

theorem request_error:
  assumes "\<not> ok r" and "body r = Inr data" and "get_prop data ''error'' = Inr (JStr m)"
    and "m \<noteq> []" and "mo = LoginMode \<or> password f = confirm f"
  shows "request (Inr r) =
           Inl (if status r = 401 then ApiError ''Unauthorized'' 401 else ApiError m (status r)) \<and>
         error (fst (handleSubmit mo (Inr r) fetched_check (f, s))) =
           (if status r = 401 then ''Unauthorized'' else m)"
proof -
  have req: "request (Inr r) =
      Inl (if status r = 401 then ApiError ''Unauthorized'' 401 else ApiError m (status r))"
    using assms(1-4) by (simp add: request_def js_or_def)
  have "error (fst (handleSubmit mo (Inr r) fetched_check (f, s))) =
           (if status r = 401 then ''Unauthorized'' else m)"
    using assms(4,5) req by (cases mo) (auto simp: handleSubmit_def login_def setup'_def)
  with req show ?thesis by simp
qed

theorem request_error_witness:
  "request (Inr \<lparr>status = 403, body = Inr (JObj [(''error'', JStr ''bad password'')])\<rparr>)
     = Inl (ApiError ''bad password'' 403) \<and>
   error (fst (handleSubmit LoginMode
       (Inr \<lparr>status = 403, body = Inr (JObj [(''error'', JStr ''bad password'')])\<rparr>)
       (Inl (TypeError ''Failed to fetch''))
       (\<lparr>password = ''wrong'', confirm = [], error = [], navigated = None\<rparr>,
        \<lparr>user = None, loading = False, setupNeeded = JBool False\<rparr>)))
     = ''bad password''"
  using request_error [of "\<lparr>status = 403, body = Inr (JObj [(''error'', JStr ''bad password'')])\<rparr>"
      "JObj [(''error'', JStr ''bad password'')]" "''bad password''" LoginMode
      "\<lparr>password = ''wrong'', confirm = [], error = [], navigated = None\<rparr>"
      "Inl (TypeError ''Failed to fetch'')"
      "\<lparr>user = None, loading = False, setupNeeded = JBool False\<rparr>"]
  by (simp add: ok_def)

text \<open>
  C5 as stated fails at its own example: login answered with HTTP 401 and
  \<^verbatim>\<open>{error: "bad password"}\<close>. The error's message is \<^verbatim>\<open>Unauthorized\<close>, and that is what
  the form displays.
\<close>

theorem request_401_counterexample:
  "request (Inr \<lparr>status = 401, body = Inr (JObj [(''error'', JStr ''bad password'')])\<rparr>)
     = Inl (ApiError ''Unauthorized'' 401) \<and>
   error (fst (handleSubmit LoginMode
       (Inr \<lparr>status = 401, body = Inr (JObj [(''error'', JStr ''bad password'')])\<rparr>)
       (Inl (TypeError ''Failed to fetch''))
       (\<lparr>password = ''wrong'', confirm = [], error = [], navigated = None\<rparr>,
        \<lparr>user = None, loading = False, setupNeeded = JBool False\<rparr>)))
     = ''Unauthorized''"
  by (simp add: request_def handleSubmit_def login_def)

section \<open>The route guards\<close>

text \<open>Three renderings settle every location: what is on the screen is never a redirect.\<close>

lemma screen_settles: "\<exists>el. screen 3 s r = Some el \<and> (\<forall>r'. el \<noteq> Navigate r')"
  by (cases r) (auto simp: numeral_3_eq_3 PublicRoute_def PrivateRoute_def)

text \<open>
  C2, as the code has it. While setup is needed, every location but \<^verbatim>\<open>/login\<close> ends at
  the setup form (the protected ones and the unmatched ones by redirection), and
  \<^verbatim>\<open>/login\<close> itself still renders the login form; no protected page is rendered, and the
  user (the session cookie's effect) plays no part.
\<close>

theorem setup_needed_screen:
  assumes "phase s = SetupRequired"
  shows "screen 3 s r = Some (Outlet (Login (if r = LoginPath then LoginMode else SetupMode)))"
proof -
  from assms have l: "\<not> loading s" and t: "truthy (setupNeeded s)"
    by (auto simp: phase_def split: if_splits)
  show ?thesis
    by (cases r) (simp_all add: numeral_3_eq_3 PublicRoute_def PrivateRoute_def l t)
qed

theorem setup_needed_screen_witness:
  "phase \<lparr>user = Some AuthenticatedUser, loading = False, setupNeeded = JBool True\<rparr> = SetupRequired \<and>
   screen 3 \<lparr>user = Some AuthenticatedUser, loading = False, setupNeeded = JBool True\<rparr> ChatPath
     = Some (Outlet (Login SetupMode))"
proof -
  have h: "phase \<lparr>user = Some AuthenticatedUser, loading = False, setupNeeded = JBool True\<rparr> = SetupRequired"
    by (simp add: phase_def)
  from setup_needed_screen [OF h, of ChatPath] h show ?thesis by simp
qed

text \<open>
  C2 as stated fails: the server has reported that setup is needed, and the location
  \<^verbatim>\<open>/login\<close> renders the login form.
\<close>

theorem setup_login_counterexample:
  "phase \<lparr>user = None, loading = False, setupNeeded = JBool True\<rparr> = SetupRequired \<and>
   screen 3 \<lparr>user = None, loading = False, setupNeeded = JBool True\<rparr> LoginPath
     = Some (Outlet (Login LoginMode))"
  by (simp add: numeral_3_eq_3 PublicRoute_def phase_def)

text \<open>
  C7, as the code has it. While the first check is outstanding, the protected locations
  (and the unmatched ones, redirected to \<^verbatim>\<open>/\<close>) render the spinner and the two public
  locations render nothing; so no location renders the login form, the setup form or a
  protected page.
\<close>

theorem unresolved_screen:
  assumes "phase s = Unresolved"
  shows "screen 3 s r = Some (if r = LoginPath \<or> r = SetupPath then Nothing else Spinner)"
proof -
  from assms have l: "loading s"
    by (auto simp: phase_def split: if_splits)
  show ?thesis
    by (cases r) (simp_all add: numeral_3_eq_3 PublicRoute_def PrivateRoute_def l)
qed

theorem unresolved_screen_witness:
  "phase init_auth = Unresolved \<and> screen 3 init_auth OtherPath = Some Spinner"
proof -
  have h: "phase init_auth = Unresolved"
    by (simp add: phase_def init_auth_def)
  from unresolved_screen [OF h, of OtherPath] h show ?thesis by simp
qed

text \<open>
  C7 as stated fails on the waiting indicator: in the initial state the location
  \<^verbatim>\<open>/login\<close> renders nothing at all, not the spinner.
\<close>

theorem unresolved_public_counterexample:
  "phase init_auth = Unresolved \<and> screen 3 init_auth LoginPath = Some Nothing \<and>
   screen 3 init_auth LoginPath \<noteq> Some Spinner"
  by (simp add: numeral_3_eq_3 PublicRoute_def init_auth_def phase_def)

section \<open>The chat console\<close>

lemma readyState_upd [simp]:
  "readyState (s\<lparr>messages := m\<rparr>) i = readyState s i"
  "readyState (s\<lparr>input := v\<rparr>) i = readyState s i"
  "readyState (s\<lparr>sent := x\<rparr>) i = readyState s i"
  by (simp_all add: readyState_def)

lemma sendMessage_closed: "\<not> socket_open s \<Longrightarrow> sendMessage s = (Inr (), s)"
  by (auto simp: sendMessage_def socket_open_def split: option.splits)

lemma sendMessage_blank: "trim (input s) = [] \<Longrightarrow> sendMessage s = (Inr (), s)"
  by (simp add: sendMessage_def)

lemma sendMessage_open:
  "trim (input s) \<noteq> [] \<Longrightarrow> wsRef s = Some i \<Longrightarrow> readyState s i = 1 \<Longrightarrow>
   sendMessage s =
     (Inr (),
      s\<lparr>messages := messages s @ [\<lparr>text' = JStr (trim (input s)), sender = JStr ''user''\<rparr>],
        sent := sent s @ [(i, JObj [(''type'', JStr ''message''), (''content'', JStr (trim (input s)))])],
        input := []\<rparr>)"
  by (simp add: sendMessage_def ws_send_def Let_def)

lemma sendMessage_returns: "fst (sendMessage s) = Inr ()"
proof (cases "trim (input s) \<noteq> [] \<and> socket_open s")
  case True
  then obtain i where "wsRef s = Some i" "readyState s i = 1"
    by (auto simp: socket_open_def split: option.splits)
  with True show ?thesis by (simp add: sendMessage_open)
next
  case False
  then show ?thesis by (auto simp: sendMessage_closed sendMessage_blank)
qed

lemma onmessage_content:
  "get_prop a ''content'' = Inr c \<Longrightarrow> truthy c \<Longrightarrow> get_prop a ''sender'' = Inr sn \<Longrightarrow>
   onmessage (Inr a) s =
     s\<lparr>messages := messages s @ [\<lparr>text' = c, sender = js_or sn (JStr ''bot'')\<rparr>]\<rparr>"
  by (simp add: onmessage_def)

lemma step_WsMessage_open:
  "readyState s i = 1 \<Longrightarrow> get_prop a ''content'' = Inr c \<Longrightarrow> truthy c \<Longrightarrow>
   get_prop a ''sender'' = Inr sn \<Longrightarrow>
   step (WsMessage i (Inr a)) s =
     s\<lparr>messages := messages s @ [\<lparr>text' = c, sender = js_or sn (JStr ''bot'')\<rparr>]\<rparr>"
  by (simp add: onmessage_content)

lemma step_Submit_open:
  "trim (input s) \<noteq> [] \<Longrightarrow> wsRef s = Some i \<Longrightarrow> readyState s i = 1 \<Longrightarrow>
   step Submit s =
     s\<lparr>messages := messages s @ [\<lparr>text' = JStr (trim (input s)), sender = JStr ''user''\<rparr>],
       sent := sent s @ [(i, JObj [(''type'', JStr ''message''), (''content'', JStr (trim (input s)))])],
       input := []\<rparr>"
  by (simp add: sendMessage_open)

text \<open>Every event leaves the log as it was or extends it at the end.\<close>

lemma onmessage_prefix: "prefix (messages s) (messages (onmessage parsed s))"
  by (auto simp: onmessage_def split: sum.splits)

lemma sendMessage_prefix: "prefix (messages s) (messages (snd (sendMessage s)))"
proof (cases "trim (input s) \<noteq> [] \<and> socket_open s")
  case True
  then obtain i where "wsRef s = Some i" "readyState s i = 1"
    by (auto simp: socket_open_def split: option.splits)
  with True show ?thesis by (simp add: sendMessage_open)
next
  case False
  then show ?thesis by (auto simp: sendMessage_closed sendMessage_blank)
qed

lemma step_prefix: "prefix (messages s) (messages (step e s))"
proof (cases e)
  case (WsMessage i parsed)
  then show ?thesis by (simp add: onmessage_prefix)
next
  case Submit
  then show ?thesis by (simp add: sendMessage_prefix)
qed (simp_all add: connect_def cleanup_def ws_close_def onopen_def onclose_def split: option.splits)

lemma run_prefix: "prefix (messages s) (messages (run es s))"
proof (induction es arbitrary: s)
  case Nil
  then show ?case by simp
next
  case (Cons e es)
  have "prefix (messages s) (messages (step e s))"
    by (rule step_prefix)
  also have "prefix (messages (step e s)) (messages (run es (step e s)))"
    by (rule Cons.IH)
  finally show ?case by simp
qed

text \<open>
  C3, as the code has it. \<open>sendMessage\<close> tests the socket before it appends: a submission
  whose text is not empty after trimming appends the entry (the trimmed text, sender
  \<^verbatim>\<open>user\<close>) when a socket is referenced and open, and appends nothing otherwise.
\<close>

theorem submit_appends_when_open:
  "messages (step Submit s) =
     (if trim (input s) \<noteq> [] \<and> socket_open s
      then messages s @ [\<lparr>text' = JStr (trim (input s)), sender = JStr ''user''\<rparr>]
      else messages s)"
proof (cases "trim (input s) \<noteq> [] \<and> socket_open s")
  case True
  then obtain i where "wsRef s = Some i" "readyState s i = 1"
    by (auto simp: socket_open_def split: option.splits)
  with True show ?thesis by (simp add: sendMessage_open)
next
  case False
  then show ?thesis by (auto simp: sendMessage_closed sendMessage_blank)
qed

text \<open>
  C3 as stated fails: the component mounts and the text \<^verbatim>\<open>hi\<close> is submitted while
  its socket is still connecting; the log stays empty.
\<close>

theorem submit_not_open_counterexample:
  "trim ''hi'' \<noteq> [] \<and> messages (run [Mount, Change ''hi'', Submit] init_chat) = []"
  by (simp add: sendMessage_def readyState_def trim_def is_space_def init_chat_def connect_def)

text \<open>
  C4, as the code has it. While no socket is referenced or the referenced socket is not
  open, \<open>sendMessage\<close> hands nothing to the network, returns normally (it raises no error)
  and leaves the whole state, input field included, as it was: the submission is dropped
  in silence.
\<close>

theorem send_not_open_silent:
  assumes "\<not> socket_open s"
  shows "fst (sendMessage s) = Inr () \<and> sent (snd (sendMessage s)) = sent s \<and>
         snd (sendMessage s) = s"
  using assms by (simp add: sendMessage_closed)

theorem send_not_open_silent_witness:
  "\<not> socket_open \<lparr>messages = [], input = ''hi'', status' = ''Disconnected'', wsRef = Some 0,
       sockets = [3], timers = 1, sent = []\<rparr> \<and>
   fst (sendMessage \<lparr>messages = [], input = ''hi'', status' = ''Disconnected'', wsRef = Some 0,
       sockets = [3], timers = 1, sent = []\<rparr>) = Inr () \<and>
   sent (snd (sendMessage \<lparr>messages = [], input = ''hi'', status' = ''Disconnected'', wsRef = Some 0,
       sockets = [3], timers = 1, sent = []\<rparr>)) = []"
proof -
  have h: "\<not> socket_open \<lparr>messages = [], input = ''hi'', status' = ''Disconnected'', wsRef = Some 0,
       sockets = [3], timers = 1, sent = []\<rparr>"
    by (simp add: socket_open_def readyState_def)
  from send_not_open_silent [OF h] h show ?thesis by simp
qed

text \<open>
  C4 as stated fails on the error: the component mounts, and a send attempted while its
  socket is still connecting returns normally, with no error for the caller to see.
\<close>

theorem send_not_open_counterexample:
  "\<not> socket_open (run [Mount, Change ''hi''] init_chat) \<and>
   fst (sendMessage (run [Mount, Change ''hi''] init_chat)) = Inr ()"
  by (simp add: sendMessage_def readyState_def socket_open_def init_chat_def connect_def)

text \<open>
  C6 on the code. The component mounts, its socket opens, the component unmounts (the
  cleanup closes the socket) and the platform delivers the close event: \<open>onclose\<close> has
  scheduled a reconnection, and when the timer runs a second socket is constructed and
  stored in the reference.
\<close>

theorem reconnect_after_unmount:
  "timers (run [Mount, WsOpen 0, Unmount, WsClose 0] init_chat) = 1 \<and>
   sockets (run [Mount, WsOpen 0, Unmount, WsClose 0, Timeout] init_chat) = [3, 0] \<and>
   wsRef (run [Mount, WsOpen 0, Unmount, WsClose 0, Timeout] init_chat) = Some 1"
  by (simp add: init_chat_def connect_def readyState_def onopen_def cleanup_def ws_close_def
      onclose_def)

text \<open>
  C9, as the code has it. No event reorders or removes an entry: the log before any run
  of events is a prefix of the log after it. And when frames \<open>a\<close> and \<open>b\<close> (each with a truthy
  content) arrive on the referenced socket, which is open, around a submission of a text
  \<open>c\<close> that is not blank, in the order \<open>a\<close>, \<open>c\<close>, \<open>b\<close>, the log grows by exactly the three
  entries in that order. A submission made in a state \<open>t\<close> whose socket is not open adds no
  entry.
\<close>

theorem log_append_order:
  assumes "wsRef s = Some i" and "readyState s i = 1"
    and "get_prop a ''content'' = Inr ca" and "truthy ca" and "get_prop a ''sender'' = Inr sa"
    and "get_prop b ''content'' = Inr cb" and "truthy cb" and "get_prop b ''sender'' = Inr sb"
    and "trim c \<noteq> []"
  shows "messages (run [WsMessage i (Inr a), Change c, Submit, WsMessage i (Inr b)] s) =
           messages s @
             [\<lparr>text' = ca, sender = js_or sa (JStr ''bot'')\<rparr>,
              \<lparr>text' = JStr (trim c), sender = JStr ''user''\<rparr>,
              \<lparr>text' = cb, sender = js_or sb (JStr ''bot'')\<rparr>] \<and>
         prefix (messages s) (messages (run es s)) \<and>
         (\<not> socket_open t \<longrightarrow> messages (step Submit t) = messages t)"
proof -
  define s1 where "s1 = step (WsMessage i (Inr a)) s"
  define s2 where "s2 = step (Change c) s1"
  define s3 where "s3 = step Submit s2"
  define s4 where "s4 = step (WsMessage i (Inr b)) s3"
  have e1: "s1 = s\<lparr>messages := messages s @ [\<lparr>text' = ca, sender = js_or sa (JStr ''bot'')\<rparr>]\<rparr>"
    unfolding s1_def using assms(2-5) by (rule step_WsMessage_open)
  have e2: "s2 = s1\<lparr>input := c\<rparr>"
    unfolding s2_def by simp
  have p2: "trim (input s2) \<noteq> []" "wsRef s2 = Some i" "readyState s2 i = 1"
    using assms(1,2,9) by (simp_all add: e2 e1)
  have e3: "s3 = s2\<lparr>messages := messages s2 @ [\<lparr>text' = JStr (trim (input s2)), sender = JStr ''user''\<rparr>],
       sent := sent s2 @ [(i, JObj [(''type'', JStr ''message''), (''content'', JStr (trim (input s2)))])],
       input := []\<rparr>"
    unfolding s3_def using p2 by (rule step_Submit_open)
  have p3: "readyState s3 i = 1"
    using p2(3) by (simp add: e3)
  have e4: "s4 = s3\<lparr>messages := messages s3 @ [\<lparr>text' = cb, sender = js_or sb (JStr ''bot'')\<rparr>]\<rparr>"
    unfolding s4_def using p3 assms(6-8) by (rule step_WsMessage_open)
  have "run [WsMessage i (Inr a), Change c, Submit, WsMessage i (Inr b)] s = s4"
    by (simp only: run.simps s1_def s2_def s3_def s4_def)
  then have "messages (run [WsMessage i (Inr a), Change c, Submit, WsMessage i (Inr b)] s) =
           messages s @
             [\<lparr>text' = ca, sender = js_or sa (JStr ''bot'')\<rparr>,
              \<lparr>text' = JStr (trim c), sender = JStr ''user''\<rparr>,
              \<lparr>text' = cb, sender = js_or sb (JStr ''bot'')\<rparr>]"
    by (simp add: e4 e3 e2 e1)
  then show ?thesis by (simp add: run_prefix sendMessage_closed)
qed

theorem log_append_order_witness:
  "messages (run [WsMessage 0 (Inr (JObj [(''content'', JStr ''A'')])), Change '' C '', Submit,
                  WsMessage 0 (Inr (JObj [(''content'', JStr ''B''), (''sender'', JStr ''mika'')]))]
      \<lparr>messages = [], input = [], status' = ''Connected'', wsRef = Some 0,
       sockets = [1], timers = 0, sent = []\<rparr>)
   = [\<lparr>text' = JStr ''A'', sender = JStr ''bot''\<rparr>,
      \<lparr>text' = JStr ''C'', sender = JStr ''user''\<rparr>,
      \<lparr>text' = JStr ''B'', sender = JStr ''mika''\<rparr>] \<and>
   \<not> socket_open \<lparr>messages = [], input = ''C'', status' = ''Disconnected'', wsRef = Some 0,
       sockets = [3], timers = 1, sent = []\<rparr> \<and>
   messages (step Submit \<lparr>messages = [], input = ''C'', status' = ''Disconnected'', wsRef = Some 0,
       sockets = [3], timers = 1, sent = []\<rparr>) = []"
proof -
  have h: "\<not> socket_open \<lparr>messages = [], input = ''C'', status' = ''Disconnected'', wsRef = Some 0,
       sockets = [3], timers = 1, sent = []\<rparr>"
    by (simp add: socket_open_def readyState_def)
  have t: "trim '' C '' = ''C''"
    by (simp add: trim_def is_space_def)
  from log_append_order [of "\<lparr>messages = [], input = [], status' = ''Connected'', wsRef = Some 0,
       sockets = [1], timers = 0, sent = []\<rparr>" 0 "JObj [(''content'', JStr ''A'')]" "JStr ''A''"
       JUndefined "JObj [(''content'', JStr ''B''), (''sender'', JStr ''mika'')]" "JStr ''B''"
       "JStr ''mika''" "'' C ''" "[]"
       "\<lparr>messages = [], input = ''C'', status' = ''Disconnected'', wsRef = Some 0,
       sockets = [3], timers = 1, sent = []\<rparr>"] h t
  show ?thesis by (simp add: readyState_def js_or_def)
qed

text \<open>
  C9 as stated fails: the component mounts and its socket opens; frame A arrives, the
  socket closes, C is submitted while the reconnection is pending, the next socket opens
  and frame B arrives. The events were
  observed in the order A, C, B and the log is A, B.
\<close>

theorem log_order_counterexample:
  "messages (run [Mount, WsOpen 0,
                  WsMessage 0 (Inr (JObj [(''content'', JStr ''A'')])), WsClose 0,
                  Change ''C'', Submit, Timeout, WsOpen 1,
                  WsMessage 1 (Inr (JObj [(''content'', JStr ''B'')]))] init_chat)
   = [\<lparr>text' = JStr ''A'', sender = JStr ''bot''\<rparr>, \<lparr>text' = JStr ''B'', sender = JStr ''bot''\<rparr>]"
  by (simp add: readyState_def onmessage_def js_or_def onclose_def sendMessage_def
      trim_def is_space_def connect_def onopen_def init_chat_def)

text \<open>
  C10. An inbound frame whose \<^verbatim>\<open>content\<close> is the empty string is dropped as a frame
  without \<^verbatim>\<open>content\<close> is: the handler leaves the state, and with it the log, as it was.
\<close>

theorem empty_content_dropped:
  assumes "map_of kvs ''content'' = Some (JStr [])" and "map_of kvs' ''content'' = None"
  shows "onmessage (Inr (JObj kvs)) s = s \<and> onmessage (Inr (JObj kvs')) s = s \<and>
         messages (step (WsMessage i (Inr (JObj kvs))) s) = messages s"
  using assms by (simp add: onmessage_def)

theorem empty_content_dropped_witness:
  "onmessage (Inr (JObj [(''content'', JStr []), (''sender'', JStr ''bot'')])) init_chat = init_chat \<and>
   onmessage (Inr (JObj [(''sender'', JStr ''bot'')])) init_chat = init_chat"
  using empty_content_dropped [of "[(''content'', JStr []), (''sender'', JStr ''bot'')]"
      "[(''sender'', JStr ''bot'')]" init_chat 0]
  by simp

end
